theory Spec2Isabelle
  imports Complex_Main
begin

section \<open>JavaScript strings and the built-ins the client uses\<close>

text \<open>
  A JavaScript string is a sequence of UTF-16 code units. The model uses \<^typ>\<open>string\<close>
  and reads every \<^typ>\<open>char\<close> as the code unit of the same number, so it covers the strings
  whose code units are below 256 (Latin-1). On these \<open>length\<close> and \<open>substring\<close> count as
  JavaScript does, no string holds a lone surrogate, and \<open>encodeURIComponent\<close> never throws.
  The calls of \<open>console.debug\<close>, \<open>console.log\<close> and \<open>console.error\<close> write to the
  console only and are left out of the model.
\<close>

text \<open>\<open>String.prototype.substring(a, b)\<close> for non-negative integer arguments: both are
  clamped to the length, and swapped when the first is the larger.\<close>

definition substring :: "nat \<Rightarrow> nat \<Rightarrow> string \<Rightarrow> string" where
  "substring a b s =
     (let n = length s; a' = min a n; b' = min b n
      in take (max a' b' - min a' b') (drop (min a' b') s))"

text \<open>\<open>String.prototype.split\<close> with a one-character separator: the result always has at
  least one segment, and \<open>k\<close> separators give \<open>k + 1\<close> segments.\<close>

fun split_on :: "char \<Rightarrow> string \<Rightarrow> string list" where
  "split_on sep [] = [[]]"
| "split_on sep (c # cs) =
     (if c = sep then [] # split_on sep cs
      else (case split_on sep cs of
              [] \<Rightarrow> [[c]]
            | seg # segs \<Rightarrow> (c # seg) # segs))"

text \<open>The decimal rendering of a non-negative integer inside a template literal.\<close>

definition digit_char :: "nat \<Rightarrow> char" where
  "digit_char d = ''0123456789'' ! d"

fun decimal :: "nat \<Rightarrow> string" where
  "decimal n = (if n < 10 then [digit_char n] else decimal (n div 10) @ [digit_char (n mod 10)])"

text \<open>\<open>encodeURIComponent\<close>: the unreserved characters \<open>A-Z a-z 0-9 - _ . ! ~ * ' ( )\<close> stay,
  every other code unit is written as the percent-escaped bytes of its UTF-8 encoding (one byte
  below 128, two bytes from 128 to 255).\<close>

definition uri_unreserved :: "char \<Rightarrow> bool" where
  "uri_unreserved c =
     (let n = (of_char c :: nat)
      in (65 \<le> n \<and> n \<le> 90) \<or> (97 \<le> n \<and> n \<le> 122) \<or> (48 \<le> n \<and> n \<le> 57)
         \<or> n \<in> {45, 95, 46, 33, 126, 42, 39, 40, 41})"

definition hex_digit :: "nat \<Rightarrow> char" where
  "hex_digit d = ''0123456789ABCDEF'' ! d"

definition percent_byte :: "nat \<Rightarrow> string" where
  "percent_byte b = [CHR ''%'', hex_digit (b div 16), hex_digit (b mod 16)]"

definition encode_unit :: "char \<Rightarrow> string" where
  "encode_unit c =
     (let n = (of_char c :: nat)
      in if uri_unreserved c then [c]
         else if n < 128 then percent_byte n
         else percent_byte (192 + n div 64) @ percent_byte (128 + n mod 64))"

definition encodeURIComponent :: "string \<Rightarrow> string" where
  "encodeURIComponent s = concat (map encode_unit s)"

section \<open>The payload builder\<close>

text \<open>
  \<open>buildMainPayload(stimulus, context, language)\<close>. The checksum function of
  \<open>scripts/md5.js\<close> is a parameter. \<open>context.reverse()\<close> reverses the caller's array in
  place and returns it, so the model returns the array as the call leaves it next to the
  payload. An empty \<open>language\<close> is the falsy case of the conditional.
\<close>

text \<open>The body of \<open>forEach((msg, i) => payload += ...)\<close>, from index \<open>i\<close> on.\<close>

fun forEach_vText :: "string \<Rightarrow> string list \<Rightarrow> nat \<Rightarrow> string" where
  "forEach_vText payload [] i = payload"
| "forEach_vText payload (msg # msgs) i =
     forEach_vText (payload @ ''vText'' @ decimal i @ ''='' @ encodeURIComponent msg @ ''&'')
       msgs (Suc i)"

definition buildMainPayload ::
  "(string \<Rightarrow> string) \<Rightarrow> string \<Rightarrow> string list \<Rightarrow> string \<Rightarrow> string \<times> string list" where
  "buildMainPayload md5 stimulus ctx language =
     (let payload0 = ''stimulus='' @ encodeURIComponent stimulus @ ''&'';
          reversed = rev ctx;
          payload1 = forEach_vText payload0 reversed 0;
          payload2 = payload1
            @ (if language \<noteq> [] then ''cb_config_language='' @ language @ ''&'' else [])
            @ ''cb_config_scripting=no&islearning=1&icognoid=wsf&icognocheck='';
          payload3 = payload2 @ (payload2 @ md5 (substring 7 33 payload2))
      in (payload3, reversed))"

text \<open>The pre-checksum payload as the specification words it: the stimulus field, one
  \<open>vText\<close> field per history entry, most recent first and numbered from 0, the optional
  language field, and the fixed literal fields.\<close>

definition vText_field :: "nat \<Rightarrow> string \<Rightarrow> string" where
  "vText_field i entry = ''vText'' @ decimal i @ ''='' @ encodeURIComponent entry @ ''&''"

definition pre_checksum_payload :: "string \<Rightarrow> string list \<Rightarrow> string \<Rightarrow> string" where
  "pre_checksum_payload stimulus history language =
     ''stimulus='' @ encodeURIComponent stimulus @ ''&''
     @ concat (map (\<lambda>i. vText_field i (rev history ! i)) [0..<length history])
     @ (if language = [] then [] else ''cb_config_language='' @ language @ ''&'')
     @ ''cb_config_scripting=no&islearning=1&icognoid=wsf&icognocheck=''"

section \<open>Values, errors and the module state\<close>

text \<open>A JavaScript number: a finite value, an infinity or \<open>NaN\<close>. Finite values are exact
  reals; the rounding of doubles is not modelled. Comparisons with \<open>NaN\<close> are false.\<close>

datatype number = NaN | NegInf | Fin real | PosInf

fun num_lt :: "number \<Rightarrow> number \<Rightarrow> bool" where
  "num_lt NaN y = False"
| "num_lt x NaN = False"
| "num_lt (Fin a) (Fin b) = (a < b)"
| "num_lt NegInf y = (y \<noteq> NegInf)"
| "num_lt x PosInf = (x \<noteq> PosInf)"
| "num_lt x y = False"

fun num_le :: "number \<Rightarrow> number \<Rightarrow> bool" where
  "num_le NaN y = False"
| "num_le x NaN = False"
| "num_le (Fin a) (Fin b) = (a \<le> b)"
| "num_le NegInf y = True"
| "num_le x PosInf = True"
| "num_le x y = False"

fun num_add :: "number \<Rightarrow> number \<Rightarrow> number" where
  "num_add NaN y = NaN"
| "num_add x NaN = NaN"
| "num_add (Fin a) (Fin b) = Fin (a + b)"
| "num_add PosInf NegInf = NaN"
| "num_add NegInf PosInf = NaN"
| "num_add PosInf y = PosInf"
| "num_add x PosInf = PosInf"
| "num_add NegInf y = NegInf"
| "num_add x NegInf = NegInf"

text \<open>The values a caller or the remote service can hand to the module: \<open>undefined\<close>,
  \<open>null\<close>, booleans, numbers, strings and plain objects (a list of own properties; the first
  entry of a key is the property).\<close>

datatype jsval =
    JUndefined
  | JNull
  | JBool bool
  | JNum number
  | JStr string
  | JObj "(string \<times> jsval) list"

fun truthy :: "jsval \<Rightarrow> bool" where
  "truthy JUndefined = False"
| "truthy JNull = False"
| "truthy (JBool b) = b"
| "truthy (JNum n) = (n \<noteq> NaN \<and> n \<noteq> Fin 0)"
| "truthy (JStr s) = (s \<noteq> [])"
| "truthy (JObj kvs) = True"

text \<open>One constructor for each message the module builds, carrying the interpolated values,
  and one for the message of a rejected request. A thrown error is its message together with
  its \<open>response\<close> property, which only the errors of the HTTP library have.\<close>

datatype error_message =
    ConfigMustBeObject
  | InvalidDebug
  | InvalidDefaultLanguage
  | InvalidMaxRetryAttempts
  | InvalidRetryBaseCooldown
  | InvalidCookieExpirationTime
  | CookiesBanned nat
  | CookiesUpdateFailed string
  | EmptyResponse jsval
  | TypeError
  | ApiCallFailed error_message
  | AttemptBanned nat nat
  | RetriesExhausted number
  | Axios string

datatype js_error = JsError (message: error_message) (response: "nat option")

definition new_Error :: "error_message \<Rightarrow> js_error" where
  "new_Error m = JsError m None"

text \<open>The module-level variables of \<open>index.js\<close>, lines 9 to 23.\<close>

record state =
  debug :: bool
  selectedLanguage :: string
  maxRetryAttempts :: number
  retryBaseCooldown :: number
  cookieExpirationTime :: number
  cookies :: "string list option"
  lastCookieUpdate :: int
  cbsId :: "string option"
  xai :: "string option"
  ns :: nat
  lastResponse :: "string option"
  successfulRequestsCount :: nat
  failedRequestsCount :: nat

definition initial_state :: state where
  "initial_state =
     \<lparr>debug = False, selectedLanguage = ''en'', maxRetryAttempts = Fin 3,
      retryBaseCooldown = Fin 3000, cookieExpirationTime = Fin 15768000,
      cookies = None, lastCookieUpdate = 0, cbsId = None, xai = None, ns = 0,
      lastResponse = None, successfulRequestsCount = 0, failedRequestsCount = 0\<rparr>"

section \<open>The configuration setter\<close>

text \<open>
  \<open>CleverBot.config(config)\<close>. The set of \<open>scripts/languages.js\<close> is a parameter. Each
  \<open>if ('key' in config)\<close> block is one function; a block that throws leaves the state as the
  blocks before it made it, so the result is the error (if any) together with the state.
\<close>

definition config_debug :: "(string \<times> jsval) list \<Rightarrow> state \<Rightarrow> js_error + state" where
  "config_debug kvs s =
     (case map_of kvs ''debug'' of
        None \<Rightarrow> Inr s
      | Some (JBool b) \<Rightarrow> Inr (s\<lparr>debug := b\<rparr>)
      | Some _ \<Rightarrow> Inl (new_Error InvalidDebug))"

definition config_defaultLanguage ::
  "string set \<Rightarrow> (string \<times> jsval) list \<Rightarrow> state \<Rightarrow> js_error + state" where
  "config_defaultLanguage langs kvs s =
     (case map_of kvs ''defaultLanguage'' of
        None \<Rightarrow> Inr s
      | Some (JStr lang) \<Rightarrow>
          if lang \<notin> langs then Inl (new_Error InvalidDefaultLanguage)
          else Inr (s\<lparr>selectedLanguage := lang\<rparr>)
      | Some _ \<Rightarrow> Inl (new_Error InvalidDefaultLanguage))"

definition config_maxRetryAttempts :: "(string \<times> jsval) list \<Rightarrow> state \<Rightarrow> js_error + state" where
  "config_maxRetryAttempts kvs s =
     (case map_of kvs ''maxRetryAttempts'' of
        None \<Rightarrow> Inr s
      | Some (JNum n) \<Rightarrow>
          if num_le n (Fin 0) then Inl (new_Error InvalidMaxRetryAttempts)
          else Inr (s\<lparr>maxRetryAttempts := n\<rparr>)
      | Some _ \<Rightarrow> Inl (new_Error InvalidMaxRetryAttempts))"

definition config_retryBaseCooldown :: "(string \<times> jsval) list \<Rightarrow> state \<Rightarrow> js_error + state" where
  "config_retryBaseCooldown kvs s =
     (case map_of kvs ''retryBaseCooldown'' of
        None \<Rightarrow> Inr s
      | Some (JNum n) \<Rightarrow>
          if num_le n (Fin 0) then Inl (new_Error InvalidRetryBaseCooldown)
          else Inr (s\<lparr>retryBaseCooldown := n\<rparr>)
      | Some _ \<Rightarrow> Inl (new_Error InvalidRetryBaseCooldown))"

definition config_cookieExpirationTime ::
  "(string \<times> jsval) list \<Rightarrow> state \<Rightarrow> js_error + state" where
  "config_cookieExpirationTime kvs s =
     (case map_of kvs ''cookieExpirationTime'' of
        None \<Rightarrow> Inr s
      | Some (JNum n) \<Rightarrow>
          if num_le n (Fin 0) then Inl (new_Error InvalidCookieExpirationTime)
          else Inr (s\<lparr>cookieExpirationTime := n\<rparr>)
      | Some _ \<Rightarrow> Inl (new_Error InvalidCookieExpirationTime))"

text \<open>Running the blocks in the order of the source; the first error stops the call, with
  the state reached so far.\<close>

fun run_blocks :: "(state \<Rightarrow> js_error + state) list \<Rightarrow> state \<Rightarrow> js_error option \<times> state" where
  "run_blocks [] s = (None, s)"
| "run_blocks (b # bs) s =
     (case b s of
        Inl err \<Rightarrow> (Some err, s)
      | Inr s' \<Rightarrow> run_blocks bs s')"

definition config :: "string set \<Rightarrow> jsval \<Rightarrow> state \<Rightarrow> js_error option \<times> state" where
  "config langs cfg s =
     (case cfg of
        JObj kvs \<Rightarrow>
          run_blocks
            [config_debug kvs, config_defaultLanguage langs kvs, config_maxRetryAttempts kvs,
             config_retryBaseCooldown kvs, config_cookieExpirationTime kvs] s
      | _ \<Rightarrow> (Some (new_Error ConfigMustBeObject), s))"

section \<open>Session reset\<close>

definition newSession :: "state \<Rightarrow> state" where
  "newSession s =
     s\<lparr>cookies := None, lastCookieUpdate := 0, cbsId := None, xai := None, ns := 0,
       lastResponse := None\<rparr>"

section \<open>The network, the clock and the random source\<close>

text \<open>
  What the world supplies to one attempt of \<open>interact\<close>, in the order the code asks for
  it: the clock at the validity check (line 61), the outcome of the cookie request (line 64),
  the clock at the stamp (line 74), the outcome of the exchange request (line 103), and the two
  draws of \<open>Math.random()\<close> after a failure (lines 147 and 151). A path that does not reach a
  line does not read its field. A resolved cookie request carries the \<open>set-cookie\<close> header
  (absent or a list); a resolved exchange carries the body; a rejected request carries the
  status of \<open>err.response\<close> (absent when there was no response) and \<open>err.message\<close>.
\<close>

datatype get_outcome = GetResolved "string list option" | GetRejected "nat option" string

datatype post_outcome = PostResolved jsval | PostRejected "nat option" string

record attempt_env =
  now_check :: int
  get_outcome :: get_outcome
  now_stamp :: int
  post_outcome :: post_outcome
  random_wait :: real
  random_incr :: real

text \<open>The effects a caller can observe from outside: the requests sent (an exchange with
  its URL, body and cookie header) and the delays slept.\<close>

datatype event = HttpGet | HttpPost string string string | Sleep number

text \<open>The module variables, the caller's history array (shared with the caller and
  reversed in place by the payload builder) and the effects so far.\<close>

record world =
  vars :: state
  ctx_array :: "string list"
  trace :: "event list"

section \<open>The cookie manager\<close>

definition updateCookiesIfNeeded :: "attempt_env \<Rightarrow> world \<Rightarrow> js_error option \<times> world" where
  "updateCookiesIfNeeded e w =
     (let s = vars w in
      if cookies s \<noteq> None
         \<and> num_lt (Fin (real_of_int (now_check e - lastCookieUpdate s))) (cookieExpirationTime s)
      then (None, w)
      else (case get_outcome e of
              GetResolved set_cookie \<Rightarrow>
                (None,
                 w\<lparr>vars := s\<lparr>successfulRequestsCount := successfulRequestsCount s + 1,
                              cookies := set_cookie, lastCookieUpdate := now_stamp e\<rparr>,
                   trace := trace w @ [HttpGet]\<rparr>)
            | GetRejected status msg \<Rightarrow>
                (Some (if status = Some 403 then new_Error (CookiesBanned 403)
                       else new_Error (CookiesUpdateFailed msg)),
                 w\<lparr>vars := s\<lparr>failedRequestsCount := failedRequestsCount s + 1\<rparr>,
                   trace := trace w @ [HttpGet]\<rparr>)))"

section \<open>The single exchange\<close>

text \<open>\<open>buildCookieHeader()\<close>. \<open>cookies[0]\<close> of an empty array is \<open>undefined\<close>, whose
  \<open>split\<close> is a TypeError.\<close>

definition buildCookieHeader :: "state \<Rightarrow> js_error + string" where
  "buildCookieHeader s =
     (case (case cookies s of
              None \<Rightarrow> Inr []
            | Some [] \<Rightarrow> Inl (new_Error TypeError)
            | Some (c # cs) \<Rightarrow> Inr (''_cbsid=-1; '' @ takeWhile (\<lambda>x. x \<noteq> CHR '';'') c @ '';'')) of
        Inl err \<Rightarrow> Inl err
      | Inr h0 \<Rightarrow>
          (let h1 = (case xai s of
                       None \<Rightarrow> h0
                     | Some x \<Rightarrow> if x \<noteq> [] then h0 @ '' XAI='' @ substring 0 3 x @ '';'' else h0);
               h2 = (case cbsId s of
                       None \<Rightarrow> h1
                     | Some c \<Rightarrow> if c \<noteq> [] then h1 @ '' CBSID='' @ c @ '';'' else h1);
               h3 = h2 @ '' note=1;'';
               h4 = (case lastResponse s of
                       None \<Rightarrow> h3
                     | Some r \<Rightarrow>
                         if r \<noteq> [] then h3 @ '' CBALT=1~'' @ encodeURIComponent r @ '';'' else h3)
           in Inr h4))"

text \<open>An unset variable inside a template literal or \<open>encodeURIComponent\<close> reads
  \<open>undefined\<close>.\<close>

definition or_undefined :: "string option \<Rightarrow> string" where
  "or_undefined v = (case v of None \<Rightarrow> ''undefined'' | Some x \<Rightarrow> x)"

definition request_url :: "string \<Rightarrow> state \<Rightarrow> string" where
  "request_url stimulus s =
     ''https://www.cleverbot.com/webservicemin?uc=UseOfficialCleverbotAPI&ncf=V2&''
     @ (case cbsId s of
          None \<Rightarrow> []
        | Some c \<Rightarrow>
            if c = [] then []
            else ''out='' @ encodeURIComponent (or_undefined (lastResponse s))
              @ ''&in='' @ encodeURIComponent stimulus
              @ ''&bot=c&cbsid='' @ c
              @ ''&xai='' @ or_undefined (xai s)
              @ ''&ns='' @ decimal (ns s)
              @ ''&al=&dl=&flag=&user=&mode=1&alt=0&reac=&emo=&sou=website&xed=&'')"

text \<open>The \<open>try\<close> block of \<open>callCleverbotAPI\<close> (lines 98 to 128), with the error as it is
  thrown inside the block.\<close>

definition exchange :: "attempt_env \<Rightarrow> string \<Rightarrow> string \<Rightarrow> world \<Rightarrow> (js_error + jsval) \<times> world" where
  "exchange e stimulus payload w =
     (let url = request_url stimulus (vars w) in
      case buildCookieHeader (vars w) of
        Inl err \<Rightarrow> (Inl err, w)
      | Inr cookie \<Rightarrow>
          (let w1 = w\<lparr>trace := trace w @ [HttpPost url payload cookie]\<rparr> in
           case post_outcome e of
             PostRejected status msg \<Rightarrow> (Inl (JsError (Axios msg) status), w1)
           | PostResolved data \<Rightarrow>
               if \<not> truthy data then (Inl (new_Error (EmptyResponse data)), w1)
               else
                 (let s2 = (vars w1)\<lparr>successfulRequestsCount :=
                              successfulRequestsCount (vars w1) + 1\<rparr>;
                      w2 = w1\<lparr>vars := s2\<rparr>
                  in case data of
                       JStr body \<Rightarrow>
                         (let responseLines = split_on (CHR 0x0D) body in
                          if length responseLines \<ge> 3 then
                            (let c = responseLines ! 1;
                                 x = substring 0 3 c @ '','' @ responseLines ! 2;
                                 r = responseLines ! 0
                             in (Inr (JStr r),
                                 w2\<lparr>vars := s2\<lparr>cbsId := Some c, xai := Some x,
                                                 lastResponse := Some r\<rparr>\<rparr>))
                          else (Inr JUndefined, w2))
                     | _ \<Rightarrow> (Inl (new_Error TypeError), w2))))"

text \<open>\<open>callCleverbotAPI(stimulus, context, language)\<close>: the cookie refresh stands outside
  the \<open>try\<close> block, so its error leaves as it is; an error of the block is counted and
  replaced by a new error made from its message.\<close>

definition callCleverbotAPI ::
  "(string \<Rightarrow> string) \<Rightarrow> attempt_env \<Rightarrow> string \<Rightarrow> string \<Rightarrow> world \<Rightarrow> (js_error + jsval) \<times> world" where
  "callCleverbotAPI md5 e stimulus language w =
     (case updateCookiesIfNeeded e w of
        (Some err, w1) \<Rightarrow> (Inl err, w1)
      | (None, w1) \<Rightarrow>
          (let (payload, reversed) = buildMainPayload md5 stimulus (ctx_array w1) language;
               w2 = w1\<lparr>vars := (vars w1)\<lparr>ns := ns (vars w1) + 1\<rparr>, ctx_array := reversed\<rparr>
           in case exchange e stimulus payload w2 of
                (Inl err, w3) \<Rightarrow>
                  (Inl (new_Error (ApiCallFailed (message err))),
                   w3\<lparr>vars := (vars w3)\<lparr>failedRequestsCount :=
                                  failedRequestsCount (vars w3) + 1\<rparr>\<rparr>)
              | (Inr v, w3) \<Rightarrow> (Inr v, w3)))"

section \<open>The retry loop\<close>

text \<open>
  The \<open>for\<close> loop of \<open>CleverBot.interact\<close> from attempt index \<open>i\<close> on. The list holds what
  the world supplies to the attempts still to come; the loop can run for ever when
  \<open>maxRetryAttempts\<close> is infinite, and a list that ends before the loop does gives \<open>None\<close>.
\<close>

definition wait_time :: "number \<Rightarrow> real \<Rightarrow> int \<Rightarrow> number" where
  "wait_time cooldown u incrementalDelay =
     num_add (num_add (num_add cooldown (Fin (of_int \<lfloor>u * 2000\<rfloor>))) (Fin 1000))
       (Fin (of_int incrementalDelay))"

fun interact_loop ::
  "(string \<Rightarrow> string) \<Rightarrow> string \<Rightarrow> string \<Rightarrow> attempt_env list \<Rightarrow> nat \<Rightarrow> int \<Rightarrow> world
   \<Rightarrow> ((js_error + jsval) \<times> world) option" where
  "interact_loop md5 stimulus language [] i incrementalDelay w =
     (if num_lt (Fin (of_nat i)) (maxRetryAttempts (vars w)) then None
      else Some (Inl (new_Error (RetriesExhausted (maxRetryAttempts (vars w)))), w))"
| "interact_loop md5 stimulus language (e # es) i incrementalDelay w =
     (if num_lt (Fin (of_nat i)) (maxRetryAttempts (vars w)) then
        (case callCleverbotAPI md5 e stimulus language w of
           (Inr v, w1) \<Rightarrow> Some (Inr v, w1)
         | (Inl err, w1) \<Rightarrow>
             if response err = Some 403 then Some (Inl (new_Error (AttemptBanned (i + 1) 403)), w1)
             else
               (let waitTime = wait_time (retryBaseCooldown (vars w1)) (random_wait e)
                                 incrementalDelay;
                    w2 = w1\<lparr>trace := trace w1 @ [Sleep waitTime]\<rparr>
                in interact_loop md5 stimulus language es (i + 1)
                     (incrementalDelay + (\<lfloor>random_incr e * 3000\<rfloor> + 1000)) w2))
      else Some (Inl (new_Error (RetriesExhausted (maxRetryAttempts (vars w)))), w))"

text \<open>\<open>CleverBot.interact(stimulus, context, language)\<close>: an absent language is the
  configured one.\<close>

definition interact ::
  "(string \<Rightarrow> string) \<Rightarrow> string \<Rightarrow> string list \<Rightarrow> string option \<Rightarrow> attempt_env list \<Rightarrow> state
   \<Rightarrow> ((js_error + jsval) \<times> world) option" where
  "interact md5 stimulus ctx language envs s =
     interact_loop md5 stimulus
       (case language of None \<Rightarrow> selectedLanguage s | Some l \<Rightarrow> l)
       envs 0 0 \<lparr>vars = s, ctx_array = ctx, trace = []\<rparr>"

section \<open>Notions used to state the properties\<close>

subsection \<open>The recognised keys of the configuration object\<close>











text \<open>The configuration settings of a state.\<close>

definition settings :: "state \<Rightarrow> bool \<times> string \<times> number \<times> number \<times> number" where
  "settings s = (debug s, selectedLanguage s, maxRetryAttempts s, retryBaseCooldown s, cookieExpirationTime s)"

text \<open>Whether a cookie request succeeded.\<close>

fun resolved :: "get_outcome \<Rightarrow> bool" where
  "resolved (GetResolved c) = True"
| "resolved (GetRejected st m) = False"

subsection \<open>Reading a trace\<close>

fun sleeps :: "event list \<Rightarrow> number list" where
  "sleeps [] = []"
| "sleeps (Sleep t # evs) = t # sleeps evs"
| "sleeps (ev # evs) = sleeps evs"

fun posts :: "event list \<Rightarrow> string list" where
  "posts [] = []"
| "posts (HttpPost url payload cookie # evs) = payload # posts evs"
| "posts (ev # evs) = posts evs"

fun requests :: "event list \<Rightarrow> nat" where
  "requests [] = 0"
| "requests (Sleep t # evs) = requests evs"
| "requests (ev # evs) = Suc (requests evs)"

text \<open>The payloads sent, each with the number of its attempt: every failed attempt ends with
  one sleep, so the attempt of a request is the number of the first attempt plus the sleeps
  before it.\<close>

fun attempt_posts :: "nat \<Rightarrow> event list \<Rightarrow> (nat \<times> string) list" where
  "attempt_posts k [] = []"
| "attempt_posts k (HttpPost url payload cookie # evs) = (k, payload) # attempt_posts k evs"
| "attempt_posts k (Sleep t # evs) = attempt_posts (Suc k) evs"
| "attempt_posts k (HttpGet # evs) = attempt_posts k evs"

subsection \<open>The backoff schedule as the specification words it\<close>





subsection \<open>The session fields and the reachable states\<close>


definition session_set :: "state \<Rightarrow> bool" where
  "session_set s = (cbsId s \<noteq> None \<and> xai s \<noteq> None \<and> lastResponse s \<noteq> None)"

definition session_fields :: "state \<Rightarrow> string option \<times> string option \<times> string option" where
  "session_fields s = (cbsId s, xai s, lastResponse s)"



subsection \<open>Example runs\<close>

text \<open>Attempts of a run as the world can supply them: a \<open>set-cookie\<close> header, an exchange
  answered with status 403, one that times out, one answered with a well-formed body of three
  segments, one answered with a body of two segments, a cookie request answered without a
  \<open>set-cookie\<close> header, and a cookie request that fails. The states are the initial one and
  the initial one after \<open>config({maxRetryAttempts: n})\<close>.\<close>

definition cookie_header :: "string list option" where
  "cookie_header = Some [''XVIS=abc123; path=/; HttpOnly'']"

definition forbidden_attempt :: attempt_env where
  "forbidden_attempt =
     \<lparr>now_check = 0, get_outcome = GetResolved cookie_header, now_stamp = 0,
      post_outcome = PostRejected (Some 403) ''Request failed with status code 403'',
      random_wait = 0, random_incr = 0\<rparr>"


definition good_attempt :: attempt_env where
  "good_attempt =
     \<lparr>now_check = 0, get_outcome = GetResolved cookie_header, now_stamp = 0,
      post_outcome = PostResolved (JStr (''Hi.'' @ [CHR 0x0D] @ ''WXYZ0123'' @ [CHR 0x0D] @ ''token'')),
      random_wait = 0, random_incr = 0\<rparr>"

definition malformed_attempt :: attempt_env where
  "malformed_attempt =
     \<lparr>now_check = 0, get_outcome = GetResolved cookie_header, now_stamp = 0,
      post_outcome = PostResolved (JStr (''Hello'' @ [CHR 0x0D] @ ''WXYZ0123'')),
      random_wait = 0, random_incr = 0\<rparr>"



definition with_attempts :: "real \<Rightarrow> state" where
  "with_attempts n = snd (config {''en''} (JObj [(''maxRetryAttempts'', JNum (Fin n))]) initial_state)"

text \<open>What a run shows: its result, the number of requests, the delays slept, the caller's
  array, the session fields, the failure counter and the exchange counter; and the payloads sent
  with their attempt numbers.\<close>

definition run_summary ::
  "((js_error + jsval) \<times> world) option \<Rightarrow>
   ((js_error + jsval) \<times> nat \<times> number list \<times> string list
    \<times> (string option \<times> string option \<times> string option) \<times> nat \<times> nat) option" where
  "run_summary res = map_option (\<lambda>(r, w). (r, requests (trace w), sleeps (trace w), ctx_array w,
       session_fields (vars w), failedRequestsCount (vars w), ns (vars w))) res"

definition run_posts :: "((js_error + jsval) \<times> world) option \<Rightarrow> (nat \<times> string) list option" where
  "run_posts res = map_option (\<lambda>(r, w). attempt_posts 1 (trace w)) res"


section \<open>Properties of the payload builder\<close>

lemma forEach_vText_concat:
  "forEach_vText p xs i = p @ concat (map (\<lambda>j. vText_field (i + j) (xs ! j)) [0..<length xs])"
proof (induction xs arbitrary: p i)
  case Nil
  then show ?case by simp
next
  case (Cons x xs)
  have "map (\<lambda>j. vText_field (i + j) ((x # xs) ! j)) [0..<length (x # xs)]
      = vText_field i x # map (\<lambda>j. vText_field (Suc i + j) (xs ! j)) [0..<length xs]"
    by (simp add: upt_conv_Cons map_Suc_upt [symmetric] del: upt_Suc)
  then show ?case
    by (simp add: Cons.IH vText_field_def del: upt_Suc)
qed

lemma take_drop_map_nth:
  assumes "a \<le> b" "b \<le> length s"
  shows "take (b - a) (drop a s) = map (\<lambda>i. s ! i) [a..<b]"
proof (rule nth_equalityI)
  show "length (take (b - a) (drop a s)) = length (map (\<lambda>i. s ! i) [a..<b])"
    using assms by simp
next
  fix i assume "i < length (take (b - a) (drop a s))"
  then show "take (b - a) (drop a s) ! i = map (\<lambda>i. s ! i) [a..<b] ! i"
    using assms by simp
qed

lemma substring_window:
  assumes "33 \<le> length s"
  shows "substring 7 33 s = map (\<lambda>i. s ! i) [7..<33]"
proof -
  have "substring 7 33 s = take (33 - 7) (drop 7 s)"
    using assms by (simp add: substring_def Let_def min_def)
  also have "\<dots> = map (\<lambda>i. s ! i) [7..<33]"
    using assms by (intro take_drop_map_nth) simp_all
  finally show ?thesis .
qed

lemma pre_checksum_payload_length:
  "33 \<le> length (pre_checksum_payload stimulus history language)"
  by (simp add: pre_checksum_payload_def)

lemma buildMainPayload_pre:
  "fst (buildMainPayload md5 stimulus history language) =
     pre_checksum_payload stimulus history language
     @ pre_checksum_payload stimulus history language
     @ md5 (substring 7 33 (pre_checksum_payload stimulus history language))"
  by (simp add: buildMainPayload_def Let_def pre_checksum_payload_def forEach_vText_concat)


text \<open>
  Claim C4. For every message, history and language, the body the payload builder returns is
  \<open>P @ P @ checksum\<close>, where \<open>P\<close> is the pre-checksum payload (stimulus field, vText fields,
  optional language field, fixed literal fields) and the checksum is taken over the characters
  of \<open>P\<close> at the positions 7 to 32, both included. \<open>P\<close> always has these positions.
\<close>

theorem payload_doubled_with_checksum:
  "fst (buildMainPayload md5 stimulus history language) =
     (let P = pre_checksum_payload stimulus history language
      in P @ P @ md5 (map (\<lambda>i. P ! i) [7..<33]))
   \<and> 33 \<le> length (pre_checksum_payload stimulus history language)"
  using substring_window [OF pre_checksum_payload_length [of stimulus history language]]
  by (simp add: buildMainPayload_pre Let_def pre_checksum_payload_length)

text \<open>
  Claim C6. For every history list the payload builder emits the \<open>vText\<close> fields most recent
  first: field \<open>vText<i>\<close> carries the url-encoded entry at position \<open>i\<close> of the reversed
  history, and for a history of two entries \<open>vText0\<close> carries the last (most recent) one.
\<close>

theorem vText_fields_most_recent_first:
  "fst (buildMainPayload md5 stimulus history language) =
     (let P = ''stimulus='' @ encodeURIComponent stimulus @ ''&''
              @ concat (map (\<lambda>i. ''vText'' @ decimal i @ ''=''
                                    @ encodeURIComponent (rev history ! i) @ ''&'')
                          [0..<length history])
              @ (if language = [] then [] else ''cb_config_language='' @ language @ ''&'')
              @ ''cb_config_scripting=no&islearning=1&icognoid=wsf&icognocheck=''
      in P @ P @ md5 (substring 7 33 P))
   \<and> fst (buildMainPayload md5 stimulus [older, newer] language) =
     (let P = ''stimulus='' @ encodeURIComponent stimulus
              @ ''&vText0='' @ encodeURIComponent newer
              @ ''&vText1='' @ encodeURIComponent older @ ''&''
              @ (if language = [] then [] else ''cb_config_language='' @ language @ ''&'')
              @ ''cb_config_scripting=no&islearning=1&icognoid=wsf&icognocheck=''
      in P @ P @ md5 (substring 7 33 P))"
proof
  show "fst (buildMainPayload md5 stimulus history language) =
     (let P = ''stimulus='' @ encodeURIComponent stimulus @ ''&''
              @ concat (map (\<lambda>i. ''vText'' @ decimal i @ ''=''
                                    @ encodeURIComponent (rev history ! i) @ ''&'')
                          [0..<length history])
              @ (if language = [] then [] else ''cb_config_language='' @ language @ ''&'')
              @ ''cb_config_scripting=no&islearning=1&icognoid=wsf&icognocheck=''
      in P @ P @ md5 (substring 7 33 P))"
    by (simp add: buildMainPayload_pre pre_checksum_payload_def vText_field_def Let_def)
next
  have d: "decimal 0 = ''0''" "decimal (Suc 0) = ''1''"
    by (simp_all add: digit_char_def)
  show "fst (buildMainPayload md5 stimulus [older, newer] language) =
     (let P = ''stimulus='' @ encodeURIComponent stimulus
              @ ''&vText0='' @ encodeURIComponent newer
              @ ''&vText1='' @ encodeURIComponent older @ ''&''
              @ (if language = [] then [] else ''cb_config_language='' @ language @ ''&'')
              @ ''cb_config_scripting=no&islearning=1&icognoid=wsf&icognocheck=''
      in P @ P @ md5 (substring 7 33 P))"
    by (simp add: buildMainPayload_def Let_def d del: decimal.simps)
qed

text \<open>
  Claim C5, evaluated on the message \<open>hi\<close>, the history \<open>[a, b]\<close> and the language \<open>en\<close>:
  the call leaves the caller's array as \<open>[b, a]\<close>, and a second call with the same array,
  message and language returns a different body than the first.
\<close>

theorem buildMainPayload_reverses_the_callers_array:
  "snd (buildMainPayload md5 ''hi'' [''a'', ''b''] ''en'') = [''b'', ''a'']
   \<and> [''b'', ''a''] \<noteq> [''a'', ''b'']
   \<and> fst (buildMainPayload md5 ''hi''
            (snd (buildMainPayload md5 ''hi'' [''a'', ''b''] ''en'')) ''en'')
       \<noteq> fst (buildMainPayload md5 ''hi'' [''a'', ''b''] ''en'')"
  by (simp add: buildMainPayload_def Let_def digit_char_def encodeURIComponent_def
        encode_unit_def uri_unreserved_def)

text \<open>The usage of the README (push the message and the reply to the same array after
  each call): after the call for the second message the array \<open>[a, b]\<close> has become
  \<open>[b, a]\<close>, so the third call is made with \<open>[b, a, c, d]\<close> and sends another body than
  the conversation \<open>[a, b, c, d]\<close> would give.\<close>

lemma readme_usage_reorders_history:
  "snd (buildMainPayload md5 ''c'' [''a'', ''b''] ''en'') @ [''c'', ''d'']
     = [''b'', ''a'', ''c'', ''d'']
   \<and> fst (buildMainPayload md5 ''e'' [''b'', ''a'', ''c'', ''d''] ''en'')
       \<noteq> fst (buildMainPayload md5 ''e'' [''a'', ''b'', ''c'', ''d''] ''en'')"
  by (simp add: buildMainPayload_def Let_def digit_char_def encodeURIComponent_def
        encode_unit_def uri_unreserved_def)

section \<open>Properties of the session reset\<close>

text \<open>
  Claim C9. The session reset sets the cookie jar, the refresh timestamp, the session id, the
  auth token, the exchange counter and the last reply to their initial values, and every
  configuration setting and both request counters keep their values.
\<close>

theorem newSession_resets_session_only:
  "cookies (newSession s) = None \<and> lastCookieUpdate (newSession s) = 0
   \<and> cbsId (newSession s) = None \<and> xai (newSession s) = None
   \<and> ns (newSession s) = 0 \<and> lastResponse (newSession s) = None
   \<and> debug (newSession s) = debug s
   \<and> selectedLanguage (newSession s) = selectedLanguage s
   \<and> maxRetryAttempts (newSession s) = maxRetryAttempts s
   \<and> retryBaseCooldown (newSession s) = retryBaseCooldown s
   \<and> cookieExpirationTime (newSession s) = cookieExpirationTime s
   \<and> successfulRequestsCount (newSession s) = successfulRequestsCount s
   \<and> failedRequestsCount (newSession s) = failedRequestsCount s"
  by (simp add: newSession_def)

section \<open>Properties of the configuration setter\<close>














section \<open>Properties of one exchange\<close>

lemma sleeps_append: "sleeps (xs @ ys) = sleeps xs @ sleeps ys"
  by (induction xs rule: sleeps.induct) simp_all

lemma posts_append: "posts (xs @ ys) = posts xs @ posts ys"
  by (induction xs rule: posts.induct) simp_all

lemma requests_append: "requests (xs @ ys) = requests xs + requests ys"
  by (induction xs rule: requests.induct) simp_all


lemma updateCookiesIfNeeded_frame:
  assumes "updateCookiesIfNeeded e w = (r, w1)"
  shows "ctx_array w1 = ctx_array w"
    and "session_fields (vars w1) = session_fields (vars w)"
    and "ns (vars w1) = ns (vars w)"
    and "settings (vars w1) = settings (vars w)"
    and "\<exists>evs. trace w1 = trace w @ evs \<and> sleeps evs = [] \<and> posts evs = []"
    and "failedRequestsCount (vars w1) = failedRequestsCount (vars w) + (if r = None then 0 else 1)"
    and "\<forall>err. r = Some err \<longrightarrow> response err = None"
  using assms
  by (auto simp: updateCookiesIfNeeded_def Let_def session_fields_def settings_def new_Error_def
      split: if_splits get_outcome.splits)

lemma exchange_frame:
  assumes "exchange e stimulus payload w = (r, w1)"
  shows "ctx_array w1 = ctx_array w"
    and "ns (vars w1) = ns (vars w)"
    and "settings (vars w1) = settings (vars w)"
    and "failedRequestsCount (vars w1) = failedRequestsCount (vars w)"
    and "\<exists>evs. trace w1 = trace w @ evs \<and> sleeps evs = [] \<and> (posts evs = [] \<or> posts evs = [payload])"
    and "session_fields (vars w1) = session_fields (vars w) \<or> session_set (vars w1)"
  using assms
  by (auto simp: exchange_def Let_def session_fields_def settings_def session_set_def
      split: if_splits sum.splits post_outcome.splits jsval.splits)


lemma updateCookiesIfNeeded_resolved:
  "resolved (get_outcome e) \<Longrightarrow> fst (updateCookiesIfNeeded e w) = None"
  by (cases "get_outcome e") (simp_all add: updateCookiesIfNeeded_def Let_def)

lemma callCleverbotAPI_frame:
  assumes "callCleverbotAPI md5 e stimulus language w = (r, w1)"
  shows "settings (vars w1) = settings (vars w)
      \<and> failedRequestsCount (vars w1)
           = failedRequestsCount (vars w) + (case r of Inl err \<Rightarrow> 1 | Inr v \<Rightarrow> 0)
      \<and> (\<forall>err. r = Inl err \<longrightarrow> response err = None)
      \<and> (session_fields (vars w1) = session_fields (vars w) \<or> session_set (vars w1))
      \<and> ((ns (vars w1) = ns (vars w) \<and> ctx_array w1 = ctx_array w)
         \<or> (ns (vars w1) = ns (vars w) + 1 \<and> ctx_array w1 = rev (ctx_array w)))
      \<and> (resolved (get_outcome e) \<longrightarrow> ctx_array w1 = rev (ctx_array w))
      \<and> (\<exists>evs. trace w1 = trace w @ evs \<and> sleeps evs = []
           \<and> (posts evs = []
               \<or> posts evs = [fst (buildMainPayload md5 stimulus (ctx_array w) language)]))"
proof -
  obtain r0 w0 where u: "updateCookiesIfNeeded e w = (r0, w0)"
    by (cases "updateCookiesIfNeeded e w")
  note uf = updateCookiesIfNeeded_frame [OF u]
  show ?thesis
  proof (cases r0)
    case (Some err)
    then have "r = Inl err" "w1 = w0"
      using assms u by (simp_all add: callCleverbotAPI_def)
    moreover have "\<not> resolved (get_outcome e)"
      using updateCookiesIfNeeded_resolved [of e w] u Some by auto
    ultimately show ?thesis
      using uf Some by auto
  next
    case None
    define payload where "payload = fst (buildMainPayload md5 stimulus (ctx_array w0) language)"
    define w2 where "w2 = w0\<lparr>vars := (vars w0)\<lparr>ns := ns (vars w0) + 1\<rparr>,
                           ctx_array := rev (ctx_array w0)\<rparr>"
    obtain r3 w3 where x: "exchange e stimulus payload w2 = (r3, w3)"
      by (cases "exchange e stimulus payload w2")
    note xf = exchange_frame [OF x]
    have bm: "buildMainPayload md5 stimulus (ctx_array w0) language = (payload, rev (ctx_array w0))"
      by (simp add: payload_def buildMainPayload_def Let_def)
    have res: "(r, w1) = (case r3 of
                  Inl err \<Rightarrow> (Inl (new_Error (ApiCallFailed (message err))),
                     w3\<lparr>vars := (vars w3)\<lparr>failedRequestsCount := failedRequestsCount (vars w3) + 1\<rparr>\<rparr>)
                | Inr v \<Rightarrow> (Inr v, w3))"
      using assms u None x bm by (simp add: callCleverbotAPI_def Let_def w2_def split: sum.splits)
    have w2f: "settings (vars w2) = settings (vars w0)" "session_fields (vars w2) = session_fields (vars w0)"
      "trace w2 = trace w0" "failedRequestsCount (vars w2) = failedRequestsCount (vars w0)"
      "ns (vars w2) = ns (vars w0) + 1" "ctx_array w2 = rev (ctx_array w0)"
      by (simp_all add: w2_def settings_def session_fields_def)
    obtain evs0 where evs0: "trace w0 = trace w @ evs0" "sleeps evs0 = []" "posts evs0 = []"
      using uf(5) by blast
    obtain evs3 where evs3: "trace w3 = trace w2 @ evs3" "sleeps evs3 = []"
      "posts evs3 = [] \<or> posts evs3 = [payload]"
      using xf(5) by blast
    have tr: "\<exists>evs. trace w3 = trace w @ evs \<and> sleeps evs = []
           \<and> (posts evs = [] \<or> posts evs = [fst (buildMainPayload md5 stimulus (ctx_array w) language)])"
      using evs0 evs3 w2f uf(1)
      by (intro exI [of _ "evs0 @ evs3"]) (auto simp: sleeps_append posts_append payload_def)
    show ?thesis
    proof (cases r3)
      case (Inl err)
      then have "r = Inl (new_Error (ApiCallFailed (message err)))"
        and "w1 = w3\<lparr>vars := (vars w3)\<lparr>failedRequestsCount := failedRequestsCount (vars w3) + 1\<rparr>\<rparr>"
        using res by simp_all
      then show ?thesis
        using uf xf w2f tr None
        by (auto simp: settings_def session_fields_def session_set_def new_Error_def)
    next
      case (Inr v)
      then have "r = Inr v" "w1 = w3" using res by simp_all
      then show ?thesis
        using uf xf w2f tr None by auto
    qed
  qed
qed


section \<open>Properties of the retry loop\<close>








lemma interact_loop_never_banned:
  assumes "interact_loop md5 stimulus language envs i d w = Some (Inl err, w')"
  shows "err = new_Error (RetriesExhausted (maxRetryAttempts (vars w)))"
  using assms
proof (induction envs arbitrary: i d w)
  case Nil
  then show ?case by (auto split: if_splits)
next
  case (Cons e es)
  show ?case
  proof (cases "num_lt (Fin (of_nat i)) (maxRetryAttempts (vars w))")
    case False
    then show ?thesis using Cons.prems by auto
  next
    case True
    obtain r1 w1 where c: "callCleverbotAPI md5 e stimulus language w = (r1, w1)"
      by (cases "callCleverbotAPI md5 e stimulus language w")
    from callCleverbotAPI_frame [OF c]
    have st: "settings (vars w1) = settings (vars w)"
      and nr: "\<forall>err. r1 = Inl err \<longrightarrow> response err = None"
      by blast+
    show ?thesis
    proof (cases r1)
      case (Inr v)
      then show ?thesis using Cons.prems True c by simp
    next
      case (Inl err1)
      define w2 where "w2 = w1\<lparr>trace := trace w1
          @ [Sleep (wait_time (retryBaseCooldown (vars w1)) (random_wait e) d)]\<rparr>"
      have "response err1 \<noteq> Some 403" using nr Inl by simp
      then have rec: "interact_loop md5 stimulus language es (i + 1)
                        (d + (\<lfloor>random_incr e * 3000\<rfloor> + 1000)) w2 = Some (Inl err, w')"
        using Cons.prems True c Inl by (simp add: Let_def w2_def)
      have "maxRetryAttempts (vars w2) = maxRetryAttempts (vars w)"
        using st by (simp add: w2_def settings_def)
      with Cons.IH [OF rec] show ?thesis by simp
    qed
  qed
qed





text \<open>An exchange answered with a non-empty body of fewer than three segments: whenever
  the attempt gets to the exchange, \<open>interact\<close> returns \<open>undefined\<close> at that attempt, with
  the session fields, the delays slept and the failure counter as they were.\<close>

lemma buildCookieHeader_ns: "buildCookieHeader (s\<lparr>ns := n\<rparr>) = buildCookieHeader s"
  by (simp add: buildCookieHeader_def Let_def cong: sum.case_cong)

lemma malformed_body_is_returned:
  assumes more: "num_lt (Fin (of_nat i)) (maxRetryAttempts (vars w))"
    and cookie: "updateCookiesIfNeeded e w = (None, w1)"
    and header: "buildCookieHeader (vars w1) = Inr h"
    and body: "post_outcome e = PostResolved (JStr body)" "body \<noteq> []"
      "length (split_on (CHR 0x0D) body) < 3"
  shows "\<exists>w'. interact_loop md5 stimulus language (e # es) i d w = Some (Inr JUndefined, w')
           \<and> session_fields (vars w') = session_fields (vars w)
           \<and> sleeps (trace w') = sleeps (trace w)
           \<and> failedRequestsCount (vars w') = failedRequestsCount (vars w)"
proof -
  define payload where "payload = fst (buildMainPayload md5 stimulus (ctx_array w1) language)"
  define w2 where "w2 = w1\<lparr>vars := (vars w1)\<lparr>ns := ns (vars w1) + 1\<rparr>,
                         ctx_array := rev (ctx_array w1)\<rparr>"
  define w3 where "w3 = w2\<lparr>trace := trace w2 @ [HttpPost (request_url stimulus (vars w2)) payload h],
                         vars := (vars w2)\<lparr>successfulRequestsCount :=
                                   successfulRequestsCount (vars w2) + 1\<rparr>\<rparr>"
  have h2: "buildCookieHeader (vars w2) = Inr h"
    using header by (simp add: w2_def buildCookieHeader_ns)
  have x: "exchange e stimulus payload w2 = (Inr JUndefined, w3)"
    using body h2 by (simp add: exchange_def Let_def w3_def)
  have bm: "buildMainPayload md5 stimulus (ctx_array w1) language = (payload, rev (ctx_array w1))"
    by (simp add: payload_def buildMainPayload_def Let_def)
  have c: "callCleverbotAPI md5 e stimulus language w = (Inr JUndefined, w3)"
    using cookie bm x by (simp add: callCleverbotAPI_def Let_def w2_def)
  have run: "interact_loop md5 stimulus language (e # es) i d w = Some (Inr JUndefined, w3)"
    using more c by simp
  note uf = updateCookiesIfNeeded_frame [OF cookie]
  have "session_fields (vars w3) = session_fields (vars w)"
    using uf(2) by (simp add: w3_def w2_def session_fields_def)
  moreover have "sleeps (trace w3) = sleeps (trace w)"
    using uf(5) by (auto simp: w3_def w2_def sleeps_append)
  moreover have "failedRequestsCount (vars w3) = failedRequestsCount (vars w)"
    using uf(6) by (simp add: w3_def w2_def)
  ultimately show ?thesis using run by blast
qed

section \<open>Runs of the retry loop\<close>

lemmas run_defs = interact_def callCleverbotAPI_def updateCookiesIfNeeded_def exchange_def
  buildCookieHeader_def request_url_def buildMainPayload_def Let_def substring_def
  encodeURIComponent_def encode_unit_def uri_unreserved_def percent_byte_def hex_digit_def
  digit_char_def initial_state_def new_Error_def wait_time_def or_undefined_def
  config_def config_debug_def config_defaultLanguage_def config_maxRetryAttempts_def
  config_retryBaseCooldown_def config_cookieExpirationTime_def session_fields_def run_summary_def run_posts_def with_attempts_def
  cookie_header_def





text \<open>
  Claim C2, evaluated on five attempts whose exchange is answered with status 403, with
  \<open>maxRetryAttempts = 5\<close>: the handler of \<open>callCleverbotAPI\<close> replaces the rejected request's
  error by a new error without a \<open>response\<close>, so the test for 403 in \<open>interact\<close> is false.
  The run makes all five exchanges (six requests with the cookie request), sleeps after each,
  and ends with the error of exhausted retries, not with the error of a ban.
\<close>

theorem forbidden_response_is_retried:
  "run_summary (interact md5 ''hi'' [] None
        [forbidden_attempt, forbidden_attempt, forbidden_attempt, forbidden_attempt,
         forbidden_attempt] (with_attempts 5))
   = Some (Inl (JsError (RetriesExhausted (Fin 5)) None), 6,
           [Fin 4000, Fin 5000, Fin 6000, Fin 7000, Fin 8000], [], (None, None, None), 5, 5)"
  by (simp add: run_defs forbidden_attempt_def)

text \<open>
  Claim C3, evaluated on an exchange answered with a body of two segments, with a well-formed
  answer ready for a second attempt: \<open>callCleverbotAPI\<close> logs and returns without a value, so
  \<open>interact\<close> returns \<open>undefined\<close> after the first attempt (two requests with the cookie
  request), without a sleep or a second attempt and without counting a failure. The session
  fields stay unset.
\<close>

theorem malformed_response_is_returned:
  "run_summary (interact md5 ''hi'' [] None [malformed_attempt, good_attempt] initial_state)
   = Some (Inr JUndefined, 2, [], [], (None, None, None), 0, 1)"
  by (simp add: run_defs malformed_attempt_def good_attempt_def)







section \<open>The session fields in the reachable states\<close>









end
